theory Spec2Isabelle
  imports Complex_Main
begin

section \<open>Values and errors\<close>

text \<open>
  The module \<^verbatim>\<open>gmeterpy/corrections/polar_motion.py\<close> computes with numpy: every
  argument is a Python float or a one-dimensional array of floats, and the arithmetic
  operators combine them element-wise under numpy's broadcasting rules. A value is
  therefore a scalar or an array. Floating-point numbers are idealised as real
  numbers here: rounding is not part of this model. A later section gives the same
  function over floating-point operations taken as parameters, for the one property
  that rounding decides.
\<close>

datatype 'a nd = Scalar 'a | Array "'a list"

text \<open>
  \<open>ValueError\<close> is what numpy raises when two operands cannot be broadcast together;
  \<open>LibraryError\<close> stands for any exception raised inside the astropy IERS subsystem;
  \<open>UserWarning\<close> is a warning that the warning filters turn into an exception.
\<close>

datatype py_error = ValueError | LibraryError | UserWarning string

fun bindE :: "'e + 'a \<Rightarrow> ('a \<Rightarrow> 'e + 'b) \<Rightarrow> 'e + 'b" where
  "bindE (Inl e) f = Inl e"
| "bindE (Inr v) f = f v"

text \<open>A numpy universal function of one argument (\<open>np.sin\<close>, \<open>np.radians\<close>, \<open>x / 3600\<close>).\<close>

fun nd_map :: "('a \<Rightarrow> 'b) \<Rightarrow> 'a nd \<Rightarrow> 'b nd" where
  "nd_map f (Scalar x) = Scalar (f x)"
| "nd_map f (Array xs) = Array (map f xs)"

text \<open>
  A binary operator on two values. Two arrays combine when their lengths agree or when
  one of them has length one (it is then stretched); otherwise numpy raises.
\<close>

fun broadcast2 :: "('a \<Rightarrow> 'b \<Rightarrow> 'c) \<Rightarrow> 'a nd \<Rightarrow> 'b nd \<Rightarrow> py_error + 'c nd" where
  "broadcast2 f (Scalar x) (Scalar y) = Inr (Scalar (f x y))"
| "broadcast2 f (Scalar x) (Array ys) = Inr (Array (map (f x) ys))"
| "broadcast2 f (Array xs) (Scalar y) = Inr (Array (map (\<lambda>x. f x y) xs))"
| "broadcast2 f (Array xs) (Array ys) =
     (if length xs = length ys then Inr (Array (map2 f xs ys))
      else if length xs = 1 then Inr (Array (map (f (hd xs)) ys))
      else if length ys = 1 then Inr (Array (map (\<lambda>x. f x (hd ys)) xs))
      else Inl ValueError)"

text \<open>The elements of a value, in order (a scalar has one).\<close>

fun nd_elems :: "'a nd \<Rightarrow> 'a list" where
  "nd_elems (Scalar x) = [x]"
| "nd_elems (Array xs) = xs"

text \<open>\<open>np.any\<close> of a boolean value.\<close>

definition np_any :: "bool nd \<Rightarrow> bool" where
  "np_any b = list_ex (\<lambda>v. v) (nd_elems b)"

section \<open>The polar motion correction\<close>

text \<open>\<open>np.radians\<close>: degrees to radians.\<close>

definition radians :: "real \<Rightarrow> real" where
  "radians x = x * pi / 180"

text \<open>
  \<open>polar_motion_correction(xp, yp, lat, lon)\<close>, statement by statement. The literal
  \<open>7292115e-11\<close> is written as a quotient.
\<close>

definition polar_motion_correction ::
  "real nd \<Rightarrow> real nd \<Rightarrow> real nd \<Rightarrow> real nd \<Rightarrow> py_error + real nd" where
  "polar_motion_correction xp yp lat lon =
     (let a = 6378136;
          omega = 7292115 / 10 ^ 11;
          xp = nd_map radians (nd_map (\<lambda>v. v / 3600) xp);
          yp = nd_map radians (nd_map (\<lambda>v. v / 3600) yp);
          lat = nd_map radians lat;
          lon = nd_map radians lon
      in bindE (broadcast2 (*) (nd_map ((*) 2) (nd_map sin lat)) (nd_map cos lat)) (\<lambda>sc.
         bindE (broadcast2 (*) xp (nd_map cos lon)) (\<lambda>xc.
         bindE (broadcast2 (*) yp (nd_map sin lon)) (\<lambda>ys.
         bindE (broadcast2 (-) xc ys) (\<lambda>d.
         bindE (broadcast2 (*) sc d) (\<lambda>coords.
         Inr (nd_map (\<lambda>c. - 1.164 * omega ^ 2 * a * c) coords)))))))"

text \<open>
  The pole-tide formula as the specification words it: pole coordinates from
  arcseconds to radians (divide by 3600, then degrees to radians), station coordinates
  from degrees to radians, \<open>coords = 2 sin(lat) cos(lat) (xp cos(lon) - yp sin(lon))\<close>,
  and the result \<open>- \<delta> \<omega>\<^sup>2 a coords\<close> with \<open>\<delta> = 1.164\<close>,
  \<open>\<omega> = 7.292115e-5\<close> and \<open>a = 6378136\<close>.
\<close>

definition deg2rad :: "real \<Rightarrow> real" where
  "deg2rad d = d * (pi / 180)"

definition pole_tide :: "real \<Rightarrow> real \<Rightarrow> real \<Rightarrow> real \<Rightarrow> real" where
  "pole_tide xp yp lat lon =
     (let delta = 1.164;
          omega = 0.00007292115;
          a = 6378136;
          xp_rad = deg2rad (xp / 3600);
          yp_rad = deg2rad (yp / 3600);
          lat_rad = deg2rad lat;
          lon_rad = deg2rad lon;
          coords = 2 * sin lat_rad * cos lat_rad * (xp_rad * cos lon_rad - yp_rad * sin lon_rad)
      in - delta * omega ^ 2 * a * coords)"

section \<open>The process state and the IERS subsystem\<close>

text \<open>
  \<open>iers.conf\<close> is the configuration object of astropy's IERS subsystem, one per
  process. Only the four items the module assigns are modelled.
  \<open>auto_download\<close> is assigned \<open>None\<close>, so it is an option.
\<close>

record iers_conf =
  auto_max_age :: real
  auto_download :: "bool option"
  iers_auto_url :: string
  remote_timeout :: real

text \<open>
  The action that Python's warning filters select for a warning (module
  \<open>warnings\<close>).
\<close>

datatype action = Act_default | Act_error | Act_ignore | Act_always | Act_module | Act_once

text \<open>
  What a call can read and change: the configuration, the state of the IERS subsystem
  (its cached table, its files, the network behind it) and the state of Python's
  warning machinery, as far as it concerns the one \<open>UserWarning\<close> of this module:
  the action the filters in force select for it, the version of the filters
  (\<open>_filters_version\<close>), the module's \<open>__warningregistry__\<close> (its version and
  its keys, a text and a line number), the global \<open>onceregistry\<close>, and the warnings
  shown so far.
\<close>

record 'l process =
  conf :: iers_conf
  iers_state :: 'l
  filter_action :: action
  filters_version :: nat
  registry_version :: nat
  registry :: "(string \<times> nat) list"
  onceregistry :: "string list"
  warnings :: "string list"

text \<open>
  \<open>astropy.utils.iers\<close> is not part of this repository: the three names the module
  uses are parameters. \<open>IERS_Auto.open()\<close> and \<open>iers_table.pm_xy(jd,
  return_status=True)\<close> read the configuration, may change the subsystem's state and
  may raise; \<open>FROM_IERS_B\<close> is the status of a final value.
\<close>

record ('l, 't, 's) iers =
  IERS_Auto_open :: "iers_conf \<Rightarrow> 'l \<Rightarrow> (py_error + 't) \<times> 'l"
  pm_xy :: "'t \<Rightarrow> real nd \<Rightarrow> iers_conf \<Rightarrow> 'l \<Rightarrow> (py_error + real nd \<times> real nd \<times> 's nd) \<times> 'l"
  FROM_IERS_B :: 's

text \<open>
  \<open>warnings.warn(text)\<close>, called from line 43 of the module, after
  \<open>warn_explicit\<close> of Python's \<open>Lib/warnings.py\<close>: a registry of another filter version
  is cleared; a warning whose key is in the registry is dropped; otherwise the action
  decides: \<open>ignore\<close> drops it, \<open>error\<close> raises it, \<open>always\<close> shows it, and
  \<open>default\<close>, \<open>module\<close> and \<open>once\<close> register it and show it unless it was
  registered before.
\<close>

definition showwarning :: "string \<Rightarrow> 'l process \<Rightarrow> 'l process" where
  "showwarning text p = p\<lparr>warnings := warnings p @ [text]\<rparr>"

definition warn :: "string \<Rightarrow> 'l process \<Rightarrow> (py_error + unit) \<times> 'l process" where
  "warn text p =
     (let p = (if registry_version p \<noteq> filters_version p
               then p\<lparr>registry := [], registry_version := filters_version p\<rparr>
               else p);
          key = (text, 43);
          altkey = (text, 0)
      in if key \<in> set (registry p) then (Inr (), p)
         else (case filter_action p of
             Act_ignore \<Rightarrow> (Inr (), p)
           | Act_error \<Rightarrow> (Inl (UserWarning text), p)
           | Act_once \<Rightarrow>
               (let p = p\<lparr>registry := key # registry p\<rparr>
                in if text \<in> set (onceregistry p) then (Inr (), p)
                   else (Inr (), showwarning text (p\<lparr>onceregistry := text # onceregistry p\<rparr>)))
           | Act_always \<Rightarrow> (Inr (), showwarning text p)
           | Act_module \<Rightarrow>
               (let p = p\<lparr>registry := key # registry p\<rparr>
                in if altkey \<in> set (registry p) then (Inr (), p)
                   else (Inr (), showwarning text (p\<lparr>registry := altkey # registry p\<rparr>)))
           | Act_default \<Rightarrow> (Inr (), showwarning text (p\<lparr>registry := key # registry p\<rparr>))))"

text \<open>
  \<open>warnings.simplefilter(action)\<close>: the new filter comes first, so it selects the
  action from now on, and the version of the filters changes.
\<close>

definition simplefilter :: "action \<Rightarrow> 'l process \<Rightarrow> 'l process" where
  "simplefilter a p = p\<lparr>filter_action := a, filters_version := Suc (filters_version p)\<rparr>"

text \<open>Whether the registry in force already holds the warning of line 43 with this text.\<close>

definition already_warned :: "string \<Rightarrow> 'l process \<Rightarrow> bool" where
  "already_warned text p =
     (registry_version p = filters_version p \<and> (text, 43) \<in> set (registry p))"

section \<open>Importing the module\<close>

definition IERS_A_URL :: string where
  "IERS_A_URL = ''ftp://ftp.iers.org/products/eop/rapid/standard/finals2000A.all''"

text \<open>The module's top-level statements, run once when it is imported.\<close>

definition import_module :: "'l process \<Rightarrow> 'l process" where
  "import_module p =
     (let p = p\<lparr>conf := (conf p)\<lparr>auto_max_age := 10\<rparr>\<rparr>;
          p = p\<lparr>conf := (conf p)\<lparr>auto_download := None\<rparr>\<rparr>;
          p = p\<lparr>conf := (conf p)\<lparr>iers_auto_url := IERS_A_URL\<rparr>\<rparr>;
          p = p\<lparr>conf := (conf p)\<lparr>remote_timeout := 60\<rparr>\<rparr>
      in p)"

section \<open>Pole coordinates from the IERS\<close>

text \<open>
  \<open>get_iers_polar_motion(jd)\<close>: open the table, query it, warn when some status is
  not \<open>FROM_IERS_B\<close>, return the coordinates. An exception of the library, or a
  warning raised as an exception, ends the call.
\<close>

definition get_iers_polar_motion ::
  "('l, 't, 's) iers \<Rightarrow> real nd \<Rightarrow> 'l process \<Rightarrow> (py_error + real nd \<times> real nd) \<times> 'l process" where
  "get_iers_polar_motion iers jd p =
     (case IERS_Auto_open iers (conf p) (iers_state p) of
        (Inl e, l1) \<Rightarrow> (Inl e, p\<lparr>iers_state := l1\<rparr>)
      | (Inr iers_table, l1) \<Rightarrow>
          (case pm_xy iers iers_table jd (conf p) l1 of
             (Inl e, l2) \<Rightarrow> (Inl e, p\<lparr>iers_state := l2\<rparr>)
           | (Inr (pm_x, pm_y, status), l2) \<Rightarrow>
               (let p = p\<lparr>iers_state := l2\<rparr>
                in if np_any (nd_map (\<lambda>s. s \<noteq> FROM_IERS_B iers) status)
                   then (case warn ''Some pole coordinates are not final.'' p of
                           (Inl e, p) \<Rightarrow> (Inl e, p)
                         | (Inr u, p) \<Rightarrow> (Inr (pm_x, pm_y), p))
                   else (Inr (pm_x, pm_y), p))))"

section \<open>A test double of the IERS subsystem\<close>

text \<open>
  A stand-in for the library, to run \<open>get_iers_polar_motion\<close> on concrete inputs.
  Its state counts how often the table was acquired; its table is the last epoch with
  final values; a query answers element-wise, with status 0 for a final value and 2
  for a predicted one. The process it runs in starts as a Python process does: the
  filters select \<open>default\<close> for a \<open>UserWarning\<close>, their version is 1, and the
  registries are empty.
\<close>

definition counting_iers :: "(nat, real, int) iers" where
  "counting_iers =
     \<lparr>IERS_Auto_open = (\<lambda>c n. (Inr 60000, Suc n)),
      pm_xy = (\<lambda>t jd c n.
        (Inr (nd_map (\<lambda>e. e / 4) jd, nd_map (\<lambda>e. e / 8) jd,
              nd_map (\<lambda>e. if e \<le> t then 0 else 2) jd), n)),
      FROM_IERS_B = 0\<rparr>"

definition fresh_process :: "nat process" where
  "fresh_process =
     \<lparr>conf = \<lparr>auto_max_age = 30, auto_download = Some True, iers_auto_url = [],
              remote_timeout = 10\<rparr>,
      iers_state = 0, filter_action = Act_default, filters_version = 1,
      registry_version = 0, registry = [], onceregistry = [], warnings = []\<rparr>"

section \<open>The correction over floating-point operations\<close>

text \<open>
  The same function on scalars, with every floating-point operation it performs taken
  as a parameter: the value of a decimal literal, division, multiplication,
  subtraction, the power \<open>omega**2\<close>, \<open>np.radians\<close>, \<open>np.sin\<close> and \<open>np.cos\<close>.
  Finite floating-point numbers are real numbers; an arithmetic says which number
  each operation returns.
\<close>

record float_arith =
  fl_lit :: "real \<Rightarrow> real"
  fl_div :: "real \<Rightarrow> real \<Rightarrow> real"
  fl_mul :: "real \<Rightarrow> real \<Rightarrow> real"
  fl_sub :: "real \<Rightarrow> real \<Rightarrow> real"
  fl_pow :: "real \<Rightarrow> nat \<Rightarrow> real"
  fl_radians :: "real \<Rightarrow> real"
  fl_sin :: "real \<Rightarrow> real"
  fl_cos :: "real \<Rightarrow> real"

definition polar_motion_correction_fl ::
  "float_arith \<Rightarrow> real \<Rightarrow> real \<Rightarrow> real \<Rightarrow> real \<Rightarrow> real" where
  "polar_motion_correction_fl fa xp yp lat lon =
     (let a = 6378136;
          omega = fl_lit fa (7292115 / 10 ^ 11);
          xp = fl_radians fa (fl_div fa xp 3600);
          yp = fl_radians fa (fl_div fa yp 3600);
          lat = fl_radians fa lat;
          lon = fl_radians fa lon;
          coords = fl_mul fa (fl_mul fa (fl_mul fa 2 (fl_sin fa lat)) (fl_cos fa lat))
                     (fl_sub fa (fl_mul fa xp (fl_cos fa lon)) (fl_mul fa yp (fl_sin fa lon)))
      in fl_mul fa (fl_mul fa (fl_mul fa (- fl_lit fa 1.164) (fl_pow fa omega 2)) a) coords)"

text \<open>Exact arithmetic: the operations of the real numbers.\<close>

definition exact_arith :: float_arith where
  "exact_arith =
     \<lparr>fl_lit = (\<lambda>x. x), fl_div = (/), fl_mul = (*), fl_sub = (-), fl_pow = (^),
      fl_radians = radians, fl_sin = sin, fl_cos = cos\<rparr>"

text \<open>
  A stand-in for IEEE double arithmetic at the poles. It holds the values that a
  double-precision machine gives there: \<open>np.radians(1.0)\<close> is 0.017453292519943295,
  \<open>np.radians(90)\<close> is 1.5707963267948966, the double next to \<open>\<pi>/2\<close>, whose sine
  is 1.0 and whose cosine is 6.123233995736766e-17, not 0. Sums and products are
  left exact.
\<close>

definition ieee_sample :: float_arith where
  "ieee_sample =
     \<lparr>fl_lit = (\<lambda>x. x), fl_div = (/), fl_mul = (*), fl_sub = (-), fl_pow = (^),
      fl_radians = (\<lambda>x. if x = 90 then 1.5707963267948966
                        else if x = - 90 then - 1.5707963267948966
                        else x * 0.017453292519943295),
      fl_sin = (\<lambda>x. if x = 1.5707963267948966 then 1
                    else if x = - 1.5707963267948966 then - 1 else sin x),
      fl_cos = (\<lambda>x. if x = 1.5707963267948966 \<or> x = - 1.5707963267948966
                    then 6123233995736766 / 10 ^ 32 else cos x)\<rparr>"

section \<open>Properties of the correction\<close>

lemma polar_motion_correction_scalar:
  "polar_motion_correction (Scalar xp) (Scalar yp) (Scalar lat) (Scalar lon) =
     Inr (Scalar (- 1.164 * (7292115 / 10 ^ 11) ^ 2 * 6378136 *
       (2 * sin (radians lat) * cos (radians lat) *
         (radians (xp / 3600) * cos (radians lon) - radians (yp / 3600) * sin (radians lon)))))"
  by (simp add: polar_motion_correction_def Let_def)

lemma radians_deg2rad: "radians x = deg2rad x"
  by (simp add: radians_def deg2rad_def)

lemma radians_0: "radians 0 = 0"
  by (simp add: radians_def)

lemma radians_minus: "radians (- x) = - radians x"
  by (simp add: radians_def)

lemma radians_minus_div: "radians (- x / 3600) = - radians (x / 3600)"
  by (simp add: radians_def)

text \<open>
  Claim C1. For all pole coordinates \<open>xp\<close>, \<open>yp\<close> (arcseconds) and station coordinates
  \<open>lat\<close>, \<open>lon\<close> (degrees) the function returns \<open>- 1.164 \<omega>\<^sup>2 a coords\<close> with
  \<open>\<omega> = 7.292115e-5\<close>, \<open>a = 6378136\<close> and \<open>coords\<close> the product of the specification,
  the angles converted as the specification says.
\<close>

theorem polar_motion_correction_formula:
  "polar_motion_correction (Scalar xp) (Scalar yp) (Scalar lat) (Scalar lon) =
     Inr (Scalar (pole_tide xp yp lat lon))"
  unfolding polar_motion_correction_scalar pole_tide_def Let_def radians_deg2rad deg2rad_def
  by (simp only: times_divide_eq_right)

text \<open>
  On arrays of one length the function works element by element, and operands that
  cannot be broadcast together end the call with numpy's \<open>ValueError\<close>.
\<close>

lemma polar_motion_correction_arrays:
  assumes "length xps = n" "length yps = n" "length lats = n" "length lons = n"
  shows "polar_motion_correction (Array xps) (Array yps) (Array lats) (Array lons) =
     Inr (Array (map (\<lambda>i. pole_tide (xps ! i) (yps ! i) (lats ! i) (lons ! i)) [0..<n]))"
proof -
  have "polar_motion_correction (Array xps) (Array yps) (Array lats) (Array lons) =
     Inr (Array (map (\<lambda>c. - 1.164 * (7292115 / 10 ^ 11) ^ 2 * 6378136 * c)
       (map2 (*) (map2 (*) (map ((*) 2) (map sin (map radians lats))) (map cos (map radians lats)))
         (map2 (-) (map2 (*) (map radians (map (\<lambda>v. v / 3600) xps)) (map cos (map radians lons)))
                   (map2 (*) (map radians (map (\<lambda>v. v / 3600) yps)) (map sin (map radians lons)))))))"
    using assms by (simp add: polar_motion_correction_def Let_def)
  also have "\<dots> = Inr (Array (map (\<lambda>i. pole_tide (xps ! i) (yps ! i) (lats ! i) (lons ! i)) [0..<n]))"
    unfolding sum.inject nd.inject
    using assms
    by (intro nth_equalityI) (simp_all add: pole_tide_def Let_def radians_def deg2rad_def)
  finally show ?thesis .
qed

lemma polar_motion_correction_mismatch:
  "polar_motion_correction (Array [1, 2]) (Array [1, 2, 3]) (Scalar 45) (Scalar 0) = Inl ValueError"
  by (simp add: polar_motion_correction_def Let_def)

lemma double_angle_135: "2 * sin (radians 135) * cos (radians 135) = - 1"
proof -
  have "2 * sin (radians 135) * cos (radians 135) = sin (2 * radians 135)"
    by (simp add: sin_double)
  also have "2 * radians 135 = 3 / 2 * pi"
    by (simp add: radians_def)
  also have "sin (3 / 2 * pi) = - 1"
    using sin_3over2_pi by simp
  finally show ?thesis .
qed

text \<open>
  Claim C2, as the specification states it: a latitude outside \<open>[-90, 90]\<close> is rejected
  with an error and no number is returned. The function has no such check. At
  \<open>lat = 135\<close>, \<open>xp = 3600\<close>, \<open>yp = 0\<close>, \<open>lon = 0\<close> the call returns a number, and that
  number is the one the formula gives at 135 degrees (a latitude clamped to 90 would
  give zero).
\<close>

theorem latitude_not_validated_counterexample:
  "polar_motion_correction (Scalar 3600) (Scalar 0) (Scalar 135) (Scalar 0) =
     Inr (Scalar (1.164 * (7292115 / 10 ^ 11) ^ 2 * 6378136 * (pi / 180)))"
proof -
  have r: "radians (3600 / 3600) = pi / 180"
    by (simp add: radians_def)
  show ?thesis
    unfolding polar_motion_correction_scalar
    by (simp only: double_angle_135 radians_0 r cos_zero sin_zero div_0) simp
qed

text \<open>
  Claim C2, amended. The function does not validate the latitude: for a latitude
  outside \<open>[-90, 90]\<close> the call is not rejected and returns the value of the formula at
  that latitude, which is not clamped.
\<close>

theorem latitude_not_validated:
  "lat < - 90 \<or> 90 < lat \<Longrightarrow>
     polar_motion_correction (Scalar xp) (Scalar yp) (Scalar lat) (Scalar lon) =
       Inr (Scalar (pole_tide xp yp lat lon))"
  unfolding polar_motion_correction_scalar pole_tide_def Let_def radians_deg2rad deg2rad_def
  by (simp only: times_divide_eq_right)

theorem latitude_not_validated_witness:
  "((100::real) < - 90 \<or> 90 < (100::real)) \<and>
     polar_motion_correction (Scalar 0) (Scalar 0) (Scalar 100) (Scalar 0) =
       Inr (Scalar (pole_tide 0 0 100 0))"
  using latitude_not_validated [of 100 0 0 0] by simp

text \<open>
  Claim C6. With both pole coordinates zero the correction is zero, at every latitude
  in \<open>[-90, 90]\<close> and every longitude.
\<close>

theorem polar_motion_correction_zero_pole:
  "- 90 \<le> lat \<and> lat \<le> 90 \<Longrightarrow>
     polar_motion_correction (Scalar 0) (Scalar 0) (Scalar lat) (Scalar lon) = Inr (Scalar 0)"
  unfolding polar_motion_correction_scalar
  by (simp add: radians_0)

theorem polar_motion_correction_zero_pole_witness:
  "(- 90 \<le> (45::real) \<and> (45::real) \<le> 90) \<and>
     polar_motion_correction (Scalar 0) (Scalar 0) (Scalar 45) (Scalar 30) = Inr (Scalar 0)"
  using polar_motion_correction_zero_pole [of 45 30] by simp

lemma odd_in_pole:
  "k * (2 * sa * ca * (- x * c - - y * s)) = - (k * (2 * sa * ca * (x * c - y * s)))"
  for k :: real
  by (simp add: algebra_simps)

lemma odd_in_lat:
  "k * (2 * - sa * ca * d) = - (k * (2 * sa * ca * d))"
  for k :: real
  by simp

text \<open>
  Claim C9. The correction is odd in the pole coordinates and odd in the latitude:
  negating both \<open>xp\<close> and \<open>yp\<close>, or negating \<open>lat\<close>, negates the result.
\<close>

theorem polar_motion_correction_odd:
  "\<exists>v. polar_motion_correction (Scalar xp) (Scalar yp) (Scalar lat) (Scalar lon) =
          Inr (Scalar v) \<and>
       polar_motion_correction (Scalar (- xp)) (Scalar (- yp)) (Scalar lat) (Scalar lon) =
          Inr (Scalar (- v)) \<and>
       polar_motion_correction (Scalar xp) (Scalar yp) (Scalar (- lat)) (Scalar lon) =
          Inr (Scalar (- v))"
  unfolding polar_motion_correction_scalar
  by (simp only: radians_minus radians_minus_div sin_minus cos_minus odd_in_pole odd_in_lat
      sum.inject nd.inject simp_thms)

section \<open>The correction at the poles\<close>

text \<open>In exact arithmetic the function over floating-point operations is the function above.\<close>

lemma polar_motion_correction_exact:
  "polar_motion_correction (Scalar xp) (Scalar yp) (Scalar lat) (Scalar lon) =
     Inr (Scalar (polar_motion_correction_fl exact_arith xp yp lat lon))"
  unfolding polar_motion_correction_scalar
  by (simp add: polar_motion_correction_fl_def exact_arith_def Let_def)

text \<open>
  Claim C7, as the specification states it: at latitude 90 the correction is exactly
  zero for every \<open>xp\<close>, \<open>yp\<close> and \<open>lon\<close>. In double precision the cosine of
  \<open>np.radians(90)\<close> is 6.123233995736766e-17, and the function, which has no special
  case, returns a small number that is not zero: at \<open>xp = 3600\<close>, \<open>yp = 0\<close>,
  \<open>lon = 0\<close> about \<open>-8.4e-20\<close>.
\<close>

theorem pole_latitude_counterexample:
  "polar_motion_correction_fl ieee_sample 3600 0 90 0 =
     - 1.164 * (7292115 / 10 ^ 11) ^ 2 * 6378136 *
       (2 * (6123233995736766 / 10 ^ 32) * 0.017453292519943295) \<and>
   polar_motion_correction_fl ieee_sample 3600 0 90 0 < 0"
  by (simp add: polar_motion_correction_fl_def ieee_sample_def Let_def)

text \<open>
  Claim C7, amended. The function has no special case for the poles. In every
  arithmetic in which a product with zero is zero, the correction at latitude 90 (at
  latitude -90) is exactly zero whenever the arithmetic's cosine of
  \<open>np.radians(90)\<close> (of \<open>np.radians(-90)\<close>) is exactly zero, as it is in exact
  arithmetic, where \<open>sin(lat) cos(lat)\<close> vanishes at the poles. In double precision
  that cosine is not zero, and the result is small but not exactly zero.
\<close>

theorem pole_latitude_correction:
  assumes "\<forall>x. fl_mul fa x 0 = 0 \<and> fl_mul fa 0 x = 0"
  shows "(fl_cos fa (fl_radians fa 90) = 0 \<longrightarrow>
            polar_motion_correction_fl fa xp yp 90 lon = 0) \<and>
         (fl_cos fa (fl_radians fa (- 90)) = 0 \<longrightarrow>
            polar_motion_correction_fl fa xp yp (- 90) lon = 0)"
  using assms by (simp add: polar_motion_correction_fl_def Let_def)

theorem pole_latitude_correction_witness:
  "polar_motion_correction_fl exact_arith (1 / 10) (1 / 20) 90 30 = 0 \<and>
   polar_motion_correction_fl exact_arith (1 / 10) (1 / 20) (- 90) 30 = 0"
proof -
  have m: "\<forall>x. fl_mul exact_arith x 0 = 0 \<and> fl_mul exact_arith 0 x = 0"
    by (simp add: exact_arith_def)
  have c: "fl_cos exact_arith (fl_radians exact_arith 90) = 0"
    "fl_cos exact_arith (fl_radians exact_arith (- 90)) = 0"
    by (simp_all add: exact_arith_def radians_def)
  show ?thesis
    using pole_latitude_correction [OF m, of "1 / 10" "1 / 20" 30] c by simp
qed

section \<open>Properties of the pole-coordinate query\<close>

lemma np_any_ne:
  "np_any (nd_map (\<lambda>s. s \<noteq> b) status) = (\<exists>s \<in> set (nd_elems status). s \<noteq> b)"
  by (cases status) (auto simp: np_any_def list_ex_iff)

lemma warn_keeps_iers:
  "warn text p = (r, q) \<Longrightarrow> iers_state q = iers_state p \<and> conf q = conf p"
  by (auto simp: warn_def showwarning_def Let_def split: if_splits action.splits)

lemma counting_open: "IERS_Auto_open counting_iers c n = (Inr 60000, Suc n)"
  by (simp add: counting_iers_def)

lemma counting_pm_xy:
  "pm_xy counting_iers t jd c n =
     (Inr (nd_map (\<lambda>e. e / 4) jd, nd_map (\<lambda>e. e / 8) jd,
           nd_map (\<lambda>e. if e \<le> t then 0 else 2) jd), n)"
  by (simp add: counting_iers_def)

lemma counting_final: "FROM_IERS_B counting_iers = 0"
  by (simp add: counting_iers_def)

lemma warn_shows_at_most_once:
  "warnings (snd (warn text p)) = warnings p \<or> warnings (snd (warn text p)) = warnings p @ [text]"
  by (simp add: warn_def showwarning_def Let_def split: action.splits)

lemma warn_repeat:
  "already_warned text p \<Longrightarrow> fst (warn text p) = Inr () \<and> warnings (snd (warn text p)) = warnings p"
  by (simp add: warn_def already_warned_def Let_def)

lemma warn_first_shown:
  "\<not> already_warned text p \<Longrightarrow> filter_action p = Act_default \<or> filter_action p = Act_always \<Longrightarrow>
     fst (warn text p) = Inr () \<and> warnings (snd (warn text p)) = warnings p @ [text]"
  by (auto simp: warn_def already_warned_def showwarning_def Let_def)

lemma warn_error_raises:
  "\<not> already_warned text p \<Longrightarrow> filter_action p = Act_error \<Longrightarrow>
     fst (warn text p) = Inl (UserWarning text) \<and> warnings (snd (warn text p)) = warnings p"
  by (auto simp: warn_def already_warned_def Let_def)

lemma warn_returns:
  "filter_action p \<noteq> Act_error \<Longrightarrow> fst (warn text p) = Inr ()"
  by (simp add: warn_def showwarning_def Let_def split: action.splits)

lemma after_warn:
  "fst (case w of (Inl e, q) \<Rightarrow> (Inl e, q) | (Inr u, q) \<Rightarrow> (Inr v, q)) =
     (case fst w of Inl e \<Rightarrow> Inl e | Inr u \<Rightarrow> Inr v)"
  "snd (case w of (Inl e, q) \<Rightarrow> (Inl e, q) | (Inr u, q) \<Rightarrow> (Inr v, q)) = snd w"
  by (cases w; cases "fst w"; simp)+

lemma get_iers_polar_motion_answered:
  assumes "IERS_Auto_open iers (conf p) (iers_state p) = (Inr t, l1)"
    and "pm_xy iers t jd (conf p) l1 = (Inr (pm_x, pm_y, status), l2)"
  shows "get_iers_polar_motion iers jd p =
     (if \<exists>s \<in> set (nd_elems status). s \<noteq> FROM_IERS_B iers
      then (case warn ''Some pole coordinates are not final.'' (p\<lparr>iers_state := l2\<rparr>) of
              (Inl e, q) \<Rightarrow> (Inl e, q)
            | (Inr u, q) \<Rightarrow> (Inr (pm_x, pm_y), q))
      else (Inr (pm_x, pm_y), p\<lparr>iers_state := l2\<rparr>))"
  using assms by (simp add: get_iers_polar_motion_def Let_def np_any_ne)

lemma already_warned_iers_state [simp]:
  "already_warned text (p\<lparr>iers_state := l\<rparr>) = already_warned text p"
  by (simp add: already_warned_def)

text \<open>
  Claim C3, as the specification states it: whenever some resolved point is not final,
  exactly one advisory is emitted and the call does not fail. In a Python process
  with its default filters the first such query shows the advisory, and the second
  query of the same non-final epoch shows none: the warning is already registered.
  And once the filters turn warnings into errors, the query fails with the warning
  and returns no coordinates.
\<close>

theorem advisory_once_per_call_counterexample:
  "warnings (snd (get_iers_polar_motion counting_iers (Scalar 60004) fresh_process)) =
     [''Some pole coordinates are not final.''] \<and>
   warnings (snd (get_iers_polar_motion counting_iers (Scalar 60004)
       (snd (get_iers_polar_motion counting_iers (Scalar 60004) fresh_process)))) =
     [''Some pole coordinates are not final.''] \<and>
   fst (get_iers_polar_motion counting_iers (Scalar 60004)
       (simplefilter Act_error fresh_process)) =
     Inl (UserWarning ''Some pole coordinates are not final.'')"
  by (simp add: get_iers_polar_motion_def Let_def counting_open counting_pm_xy counting_final
      fresh_process_def np_any_def warn_def showwarning_def simplefilter_def)

text \<open>
  Claim C3, amended. When the table opens and the query answers: if every status is
  final, no advisory is shown and the coordinates are returned. If some status is not
  final, \<open>warnings.warn\<close> is called once for the whole call, so at most one advisory
  is shown, however many points are not final: exactly one when the warning is not
  yet registered and the filters select \<open>default\<close> or \<open>always\<close>, none when it is
  already registered. The coordinates are returned unless the filters select
  \<open>error\<close>; then a warning not yet registered is raised and the call fails.
\<close>

theorem advisory_once_per_call:
  assumes "IERS_Auto_open iers (conf p) (iers_state p) = (Inr t, l1)"
    and "pm_xy iers t jd (conf p) l1 = (Inr (pm_x, pm_y, status), l2)"
  shows "(if \<exists>s \<in> set (nd_elems status). s \<noteq> FROM_IERS_B iers
          then (warnings (snd (get_iers_polar_motion iers jd p)) = warnings p \<or>
                warnings (snd (get_iers_polar_motion iers jd p)) =
                  warnings p @ [''Some pole coordinates are not final.'']) \<and>
               (\<not> already_warned ''Some pole coordinates are not final.'' p \<and>
                (filter_action p = Act_default \<or> filter_action p = Act_always) \<longrightarrow>
                  fst (get_iers_polar_motion iers jd p) = Inr (pm_x, pm_y) \<and>
                  warnings (snd (get_iers_polar_motion iers jd p)) =
                    warnings p @ [''Some pole coordinates are not final.'']) \<and>
               (already_warned ''Some pole coordinates are not final.'' p \<longrightarrow>
                  fst (get_iers_polar_motion iers jd p) = Inr (pm_x, pm_y) \<and>
                  warnings (snd (get_iers_polar_motion iers jd p)) = warnings p) \<and>
               (filter_action p \<noteq> Act_error \<longrightarrow>
                  fst (get_iers_polar_motion iers jd p) = Inr (pm_x, pm_y)) \<and>
               (\<not> already_warned ''Some pole coordinates are not final.'' p \<and>
                filter_action p = Act_error \<longrightarrow>
                  fst (get_iers_polar_motion iers jd p) =
                    Inl (UserWarning ''Some pole coordinates are not final.'') \<and>
                  warnings (snd (get_iers_polar_motion iers jd p)) = warnings p)
          else fst (get_iers_polar_motion iers jd p) = Inr (pm_x, pm_y) \<and>
               warnings (snd (get_iers_polar_motion iers jd p)) = warnings p)"
proof (cases "\<exists>s \<in> set (nd_elems status). s \<noteq> FROM_IERS_B iers")
  case False
  then show ?thesis
    using get_iers_polar_motion_answered [OF assms] by simp
next
  case True
  let ?msg = "''Some pole coordinates are not final.''"
  let ?q = "p\<lparr>iers_state := l2\<rparr>"
  have r: "get_iers_polar_motion iers jd p =
      (case warn ?msg ?q of (Inl e, q) \<Rightarrow> (Inl e, q) | (Inr u, q) \<Rightarrow> (Inr (pm_x, pm_y), q))"
    using get_iers_polar_motion_answered [OF assms] True by simp
  have w: "warnings (snd (get_iers_polar_motion iers jd p)) = warnings (snd (warn ?msg ?q))"
    unfolding r by (simp add: after_warn)
  have ok: "fst (get_iers_polar_motion iers jd p) = Inr (pm_x, pm_y)"
    if "fst (warn ?msg ?q) = Inr ()"
    using that unfolding r by (simp add: after_warn)
  have bad: "fst (get_iers_polar_motion iers jd p) = Inl e"
    if "fst (warn ?msg ?q) = Inl e" for e
    using that unfolding r by (simp add: after_warn)
  have "warnings (snd (get_iers_polar_motion iers jd p)) = warnings p \<or>
        warnings (snd (get_iers_polar_motion iers jd p)) = warnings p @ [?msg]"
    using warn_shows_at_most_once [of ?msg ?q] w by simp
  moreover have "fst (get_iers_polar_motion iers jd p) = Inr (pm_x, pm_y) \<and>
        warnings (snd (get_iers_polar_motion iers jd p)) = warnings p @ [?msg]"
    if "\<not> already_warned ?msg p" "filter_action p = Act_default \<or> filter_action p = Act_always"
    using warn_first_shown [of ?msg ?q] that w ok by simp
  moreover have "fst (get_iers_polar_motion iers jd p) = Inr (pm_x, pm_y) \<and>
        warnings (snd (get_iers_polar_motion iers jd p)) = warnings p"
    if "already_warned ?msg p"
    using warn_repeat [of ?msg ?q] that w ok by simp
  moreover have "fst (get_iers_polar_motion iers jd p) = Inr (pm_x, pm_y)"
    if "filter_action p \<noteq> Act_error"
    using warn_returns [of ?q ?msg] that ok by simp
  moreover have "fst (get_iers_polar_motion iers jd p) = Inl (UserWarning ?msg) \<and>
        warnings (snd (get_iers_polar_motion iers jd p)) = warnings p"
    if "\<not> already_warned ?msg p" "filter_action p = Act_error"
    using warn_error_raises [of ?msg ?q] that w bad by simp
  ultimately show ?thesis
    using True by simp
qed

theorem advisory_once_per_call_witness:
  "fst (get_iers_polar_motion counting_iers (Array [59000, 60004, 60008]) fresh_process) =
     Inr (Array [14750, 15001, 15002], Array [7375, 15001 / 2, 7501]) \<and>
   warnings (snd (get_iers_polar_motion counting_iers (Array [59000, 60004, 60008]) fresh_process)) =
     [''Some pole coordinates are not final.''] \<and>
   fst (get_iers_polar_motion counting_iers (Array [59000, 59001]) fresh_process) =
     Inr (Array [14750, 59001 / 4], Array [7375, 59001 / 8]) \<and>
   warnings (snd (get_iers_polar_motion counting_iers (Array [59000, 59001]) fresh_process)) = []"
proof -
  have o: "IERS_Auto_open counting_iers (conf fresh_process) (iers_state fresh_process) =
      (Inr 60000, Suc 0)"
    by (simp add: counting_open fresh_process_def)
  have q1: "pm_xy counting_iers 60000 (Array [59000, 60004, 60008]) (conf fresh_process) (Suc 0) =
      (Inr (Array [14750, 15001, 15002], Array [7375, 15001 / 2, 7501], Array [0, 2, 2]), Suc 0)"
    by (simp add: counting_pm_xy)
  have q2: "pm_xy counting_iers 60000 (Array [59000, 59001]) (conf fresh_process) (Suc 0) =
      (Inr (Array [14750, 59001 / 4], Array [7375, 59001 / 8], Array [0, 0]), Suc 0)"
    by (simp add: counting_pm_xy)
  have f: "\<not> already_warned ''Some pole coordinates are not final.'' fresh_process"
    "filter_action fresh_process = Act_default" "warnings fresh_process = []"
    by (simp_all add: already_warned_def fresh_process_def)
  show ?thesis
    using advisory_once_per_call [OF o q1] advisory_once_per_call [OF o q2] f
    by (simp add: counting_final)
qed



text \<open>
  Claim C5, as the specification states it: the query does not acquire the table from
  inside itself. It does: the function takes the epochs only and calls
  \<open>IERS_Auto.open()\<close> itself. Run against the test double, whose state counts the
  acquisitions, one query of one epoch takes the count from 0 to 1.
\<close>

theorem acquisition_inside_query_counterexample:
  "iers_state fresh_process = 0 \<and>
   iers_state (snd (get_iers_polar_motion counting_iers (Scalar 59000) fresh_process)) = 1"
  by (simp add: get_iers_polar_motion_def Let_def counting_open counting_pm_xy counting_final
      fresh_process_def np_any_def)

text \<open>
  Claim C5, amended. Every call of \<open>get_iers_polar_motion\<close> acquires the table itself:
  it calls \<open>IERS_Auto.open()\<close> first and, when that returns a table, queries it once.
  What the call does to the IERS subsystem is what these two library calls do, and it
  leaves the configuration as it was. (\<open>polar_motion_correction\<close> takes no process
  state at all.)
\<close>

theorem get_iers_polar_motion_effects:
  "iers_state (snd (get_iers_polar_motion iers jd p)) =
     (case IERS_Auto_open iers (conf p) (iers_state p) of
        (Inl e, l1) \<Rightarrow> l1
      | (Inr t, l1) \<Rightarrow> snd (pm_xy iers t jd (conf p) l1)) \<and>
   conf (snd (get_iers_polar_motion iers jd p)) = conf p"
  by (auto simp: get_iers_polar_motion_def Let_def warn_keeps_iers
      split: prod.splits sum.splits)

section \<open>Properties of the import\<close>

text \<open>
  Claim C10. Importing the module, before any of its functions is called, sets four
  items of the process-wide IERS configuration whatever they were: \<open>auto_max_age\<close>
  to 10, \<open>auto_download\<close> to \<open>None\<close>, the download URL to the \<open>finals2000A.all\<close>
  address and \<open>remote_timeout\<close> to 60. Nothing else of the process changes.
\<close>

theorem import_sets_global_configuration:
  "auto_max_age (conf (import_module p)) = 10 \<and>
   auto_download (conf (import_module p)) = None \<and>
   iers_auto_url (conf (import_module p)) =
     ''ftp://ftp.iers.org/products/eop/rapid/standard/finals2000A.all'' \<and>
   remote_timeout (conf (import_module p)) = 60 \<and>
   iers_state (import_module p) = iers_state p \<and>
   warnings (import_module p) = warnings p"
  by (simp add: import_module_def IERS_A_URL_def Let_def)

end
